theory Spec2Isabelle
  imports Main "HOL-Library.Word"
begin

section \<open>Values, strings and errors\<close>

text \<open>
  Strings are lists of code units; only the code units U+0000 to U+00FF are represented,
  one \<open>char\<close> each.

  A JavaScript number is a double. \<open>Whole w\<close> is the number whose value is the integer
  \<open>sint w\<close>, from \<open>-2^53\<close> to \<open>2^53 - 1\<close>: a double holds every such integer exactly,
  and its conversion to a string is the decimal numeral of the integer. Every other
  number (a fraction, a larger magnitude, \<open>NaN\<close>, an infinity) is \<open>Printed s\<close>, where
  \<open>s\<close> is the text the conversion of the number to a string gives, such as \<open>0.5\<close> or
  \<open>1e+21\<close>; how a double is printed belongs to the language, not to the adapter.

  A JavaScript value is one of the kinds the adapter distinguishes with \<open>typeof\<close>;
  \<open>JObj s\<close> stands for any value that is not a primitive of the other kinds (object,
  function, symbol), and carries the text \<open>s\<close> that \<open>String(value)\<close> gives for it.
\<close>

datatype number = Whole "54 word" | Printed string

datatype jsval = JUndefined | JNull | JBool bool | JNum number | JStr string | JObj string

text \<open>An \<open>Error\<close> thrown by the adapter itself, or a failure reported by the driver.\<close>

datatype error = Error string | DriverError string

subsection \<open>Decimal rendering of numbers in template literals\<close>

definition digit_char :: "nat \<Rightarrow> char" where
  "digit_char d = char_of (48 + d)"

fun show_nat :: "nat \<Rightarrow> string" where
  "show_nat n = (if n < 10 then [digit_char n] else show_nat (n div 10) @ [digit_char (n mod 10)])"

declare show_nat.simps [simp del]

definition show_int :: "int \<Rightarrow> string" where
  "show_int i = (if i < 0 then CHR ''-'' # show_nat (nat (- i)) else show_nat (nat i))"

text \<open>The conversion of a number to a string, as a template literal and \<open>String\<close> apply it.\<close>

fun number_text :: "number \<Rightarrow> string" where
  "number_text (Whole w) = show_int (sint w)"
| "number_text (Printed s) = s"

text \<open>A number counts as true in a condition unless it is zero or \<open>NaN\<close>.\<close>

fun number_truthy :: "number \<Rightarrow> bool" where
  "number_truthy (Whole w) = (w \<noteq> 0)"
| "number_truthy (Printed s) = (s \<noteq> ''NaN'')"

subsection \<open>Objects\<close>

text \<open>
  An object as the parameter translator reads it: its own enumerable properties, which
  \<open>Object.keys\<close> lists, and the properties it inherits through its prototype chain.
  A property read \<open>obj[name]\<close> looks at the own properties first, then at the inherited
  ones, and gives \<open>undefined\<close> when neither has the name.
\<close>

record jsobject =
  own :: "(string \<times> jsval) list"
  inherited :: "(string \<times> jsval) list"

definition Object_keys :: "jsobject \<Rightarrow> string list" where
  "Object_keys obj = map fst (own obj)"

definition get_prop :: "jsobject \<Rightarrow> string \<Rightarrow> jsval" where
  "get_prop obj name =
     (case map_of (own obj) name of
        Some v \<Rightarrow> v
      | None \<Rightarrow> (case map_of (inherited obj) name of Some v \<Rightarrow> v | None \<Rightarrow> JUndefined))"

text \<open>
  The properties every object literal inherits from \<open>Object.prototype\<close>; each is a
  function (the accessor \<open>__proto__\<close> reads as the prototype object itself).
\<close>

definition Object_prototype :: "(string \<times> jsval) list" where
  "Object_prototype =
     [(''constructor'', JObj ''function Object() { [native code] }''),
      (''toString'', JObj ''function toString() { [native code] }''),
      (''toLocaleString'', JObj ''function toLocaleString() { [native code] }''),
      (''valueOf'', JObj ''function valueOf() { [native code] }''),
      (''hasOwnProperty'', JObj ''function hasOwnProperty() { [native code] }''),
      (''isPrototypeOf'', JObj ''function isPrototypeOf() { [native code] }''),
      (''propertyIsEnumerable'', JObj ''function propertyIsEnumerable() { [native code] }''),
      (''__defineGetter__'', JObj ''function __defineGetter__() { [native code] }''),
      (''__defineSetter__'', JObj ''function __defineSetter__() { [native code] }''),
      (''__lookupGetter__'', JObj ''function __lookupGetter__() { [native code] }''),
      (''__lookupSetter__'', JObj ''function __lookupSetter__() { [native code] }''),
      (''__proto__'', JObj ''[object Object]'')]"

definition object_literal :: "(string \<times> jsval) list \<Rightarrow> jsobject" where
  "object_literal props = \<lparr>own = props, inherited = Object_prototype\<rparr>"

section \<open>PostgresStatement: the parameter translation\<close>

subsection \<open>The regular expression \<open>/@(\w+)/g\<close>\<close>

text \<open>\<open>\w\<close> without the unicode flag: an ASCII letter, a digit or the underscore.\<close>

definition is_word_char :: "char \<Rightarrow> bool" where
  "is_word_char c =
     (let n = (of_char c :: nat)
      in (48 \<le> n \<and> n \<le> 57) \<or> (65 \<le> n \<and> n \<le> 90) \<or> n = 95 \<or> (97 \<le> n \<and> n \<le> 122))"

text \<open>
  A global replace walks the text from the left. At each position the expression matches
  when the code unit is \<open>@\<close> and at least one word character follows; the match is greedy,
  so the captured name is the longest run of word characters, and the walk goes on behind
  it. Every other code unit is copied. \<open>regex_scan\<close> gives the pieces in order.
\<close>

datatype segment = Lit char | Param string

function regex_scan :: "string \<Rightarrow> segment list" where
  "regex_scan [] = []"
| "regex_scan (c # cs) =
     (if c = CHR ''@'' \<and> takeWhile is_word_char cs \<noteq> []
      then Param (takeWhile is_word_char cs) # regex_scan (dropWhile is_word_char cs)
      else Lit c # regex_scan cs)"
  by pat_completeness auto
termination
proof (relation "measure length")
  fix c :: char and cs :: string
  have "length (dropWhile is_word_char cs) \<le> length cs"
    by (rule length_dropWhile_le)
  then show "(dropWhile is_word_char cs, c # cs) \<in> measure length"
    by simp
qed simp_all

declare regex_scan.simps [simp del]

subsection \<open>transformQuery\<close>

text \<open>The three variables the replace callback closes over.\<close>

record translation =
  paramMap :: "string \<rightharpoonup> nat"
  paramIndex :: nat
  values_list :: "jsval list"

definition replace_callback :: "jsobject \<Rightarrow> translation \<Rightarrow> string \<Rightarrow> string \<times> translation" where
  "replace_callback parameters t paramName =
     (let t' = (if paramMap t paramName = None
                then \<lparr>paramMap = (paramMap t)(paramName \<mapsto> paramIndex t),
                      paramIndex = paramIndex t + 1,
                      values_list = values_list t @ [get_prop parameters paramName]\<rparr>
                else t)
      in (CHR ''$'' # (case paramMap t' paramName of
                         Some i \<Rightarrow> show_nat i
                       | None \<Rightarrow> ''undefined''), t'))"

fun replace_all :: "jsobject \<Rightarrow> segment list \<Rightarrow> translation \<Rightarrow> string \<times> translation" where
  "replace_all parameters [] t = ([], t)"
| "replace_all parameters (Lit c # segs) t =
     (let (out, t') = replace_all parameters segs t in (c # out, t'))"
| "replace_all parameters (Param name # segs) t =
     (let (r, t1) = replace_callback parameters t name;
          (out, t') = replace_all parameters segs t1
      in (r @ out, t'))"

definition transformQuery :: "string \<Rightarrow> jsobject option \<Rightarrow> string \<times> jsval list" where
  "transformQuery query parameters =
     (case parameters of
        None \<Rightarrow> (query, [])
      | Some ps \<Rightarrow>
          if length (Object_keys ps) = 0 then (query, [])
          else (let (transformedQuery, t) =
                      replace_all ps (regex_scan query)
                        \<lparr>paramMap = Map.empty, paramIndex = 1, values_list = []\<rparr>
                in (transformedQuery, values_list t)))"


section \<open>PostgresStatement: execution and release\<close>

text \<open>
  The pool and its clients belong to the driver. What the driver does is a parameter of
  the model: whether \<open>pool.connect()\<close> gives a client and whether \<open>client.query\<close>
  succeeds may depend on everything that happened before, so both read the history, the
  list of calls made to the driver so far. A call is recorded when it is issued, whatever
  its outcome.
\<close>

type_synonym row = "(string \<times> jsval) list"

record query_result =
  rows :: "row list"
  command :: string

datatype event = Connect nat | Query nat string "jsval list" | Release nat

record driver =
  pool_connect :: "event list \<Rightarrow> error + nat"
  client_query :: "event list \<Rightarrow> nat \<Rightarrow> string \<Rightarrow> jsval list \<Rightarrow> error + query_result"

text \<open>The fields \<open>_query\<close> and \<open>_client\<close>; \<open>None\<close> is \<open>undefined\<close>.\<close>

record statement =
  s_query :: string
  s_client :: "nat option"

text \<open>\<open>await this._client?.query(query, values)\<close>: no call, and \<open>undefined\<close>, without a client.\<close>

definition optional_query ::
  "driver \<Rightarrow> statement \<Rightarrow> string \<Rightarrow> jsval list \<Rightarrow> event list
     \<Rightarrow> (error + query_result option) \<times> event list" where
  "optional_query drv s query vals log =
     (case s_client s of
        None \<Rightarrow> (Inr None, log)
      | Some c \<Rightarrow>
          (case client_query drv log c query vals of
             Inl e \<Rightarrow> (Inl e, log @ [Query c query vals])
           | Inr res \<Rightarrow> (Inr (Some res), log @ [Query c query vals])))"

text \<open>The \<open>finally\<close> block shared by the three entry points.\<close>

definition finally_release :: "statement \<Rightarrow> event list \<Rightarrow> statement \<times> event list" where
  "finally_release s log =
     (case s_client s of
        None \<Rightarrow> (s\<lparr>s_client := None\<rparr>, log)
      | Some c \<Rightarrow> (s\<lparr>s_client := None\<rparr>, log @ [Release c]))"

definition run ::
  "driver \<Rightarrow> statement \<Rightarrow> jsobject option \<Rightarrow> event list
     \<Rightarrow> (error + query_result option) \<times> statement \<times> event list" where
  "run drv s parameters log =
     (let (query, vals) = transformQuery (s_query s) parameters;
          (res, log1) = optional_query drv s query vals log;
          (s', log2) = finally_release s log1
      in (res, s', log2))"

definition all_rows ::
  "driver \<Rightarrow> statement \<Rightarrow> jsobject option \<Rightarrow> event list
     \<Rightarrow> (error + row list) \<times> statement \<times> event list" where
  "all_rows drv s parameters log =
     (let (query, vals) = transformQuery (s_query s) parameters;
          (res, log1) = optional_query drv s query vals log;
          (s', log2) = finally_release s log1
      in ((case res of
             Inl e \<Rightarrow> Inl e
           | Inr None \<Rightarrow> Inr []
           | Inr (Some r) \<Rightarrow> Inr (rows r)), s', log2))"

text \<open>The result \<open>None\<close> of \<open>get_row\<close> is \<open>undefined\<close>, which \<open>rows[0]\<close> is on an empty array.\<close>

definition get_row ::
  "driver \<Rightarrow> statement \<Rightarrow> jsobject option \<Rightarrow> event list
     \<Rightarrow> (error + row option) \<times> statement \<times> event list" where
  "get_row drv s parameters log =
     (let (query, vals) = transformQuery (s_query s) parameters;
          (res, log1) = optional_query drv s query vals log;
          (s', log2) = finally_release s log1
      in ((case res of
             Inl e \<Rightarrow> Inl e
           | Inr None \<Rightarrow> Inr None
           | Inr (Some r) \<Rightarrow> Inr (case rows r of [] \<Rightarrow> None | first # _ \<Rightarrow> Some first)), s', log2))"

section \<open>PostgresAdapter\<close>

type_synonym pool_config = string

record adapter =
  a_pool :: "pool_config option"

definition connect :: "adapter \<Rightarrow> pool_config \<Rightarrow> adapter" where
  "connect a config = a\<lparr>a_pool := Some config\<rparr>"

text \<open>\<open>this._pool ? await this._pool.connect() : undefined\<close>\<close>

definition acquire :: "driver \<Rightarrow> adapter \<Rightarrow> event list \<Rightarrow> (error + nat option) \<times> event list" where
  "acquire drv a log =
     (case a_pool a of
        None \<Rightarrow> (Inr None, log)
      | Some _ \<Rightarrow>
          (case pool_connect drv log of
             Inl e \<Rightarrow> (Inl e, log)
           | Inr c \<Rightarrow> (Inr (Some c), log @ [Connect c])))"

definition prepare ::
  "driver \<Rightarrow> adapter \<Rightarrow> string \<Rightarrow> event list \<Rightarrow> (error + statement) \<times> event list" where
  "prepare drv a query log =
     (case acquire drv a log of
        (Inl e, log1) \<Rightarrow> (Inl e, log1)
      | (Inr client, log1) \<Rightarrow> (Inr \<lparr>s_query = query, s_client = client\<rparr>, log1))"

definition exec :: "driver \<Rightarrow> adapter \<Rightarrow> string \<Rightarrow> event list \<Rightarrow> (error + unit) \<times> event list" where
  "exec drv a query log =
     (case acquire drv a log of
        (Inl e, log1) \<Rightarrow> (Inl e, log1)
      | (Inr client, log1) \<Rightarrow>
          (case run drv \<lparr>s_query = query, s_client = client\<rparr> None log1 of
             (Inl e, _, log2) \<Rightarrow> (Inl e, log2)
           | (Inr _, _, log2) \<Rightarrow> (Inr (), log2)))"




record table_column_info =
  tci_cid :: nat
  tci_name :: jsval
  tci_type :: jsval
  tci_notnull :: nat
  tci_dflt_value :: jsval
  tci_pk :: nat

definition row_field :: "row \<Rightarrow> string \<Rightarrow> jsval" where
  "row_field r k = (case map_of r k of Some v \<Rightarrow> v | None \<Rightarrow> JUndefined)"

definition column_info :: "row \<Rightarrow> nat \<Rightarrow> table_column_info" where
  "column_info r index =
     \<lparr>tci_cid = index,
      tci_name = row_field r ''column_name'',
      tci_type = row_field r ''data_type'',
      tci_notnull = (if row_field r ''is_nullable'' = JStr ''NO'' then 1 else 0),
      tci_dflt_value = row_field r ''column_default'',
      tci_pk = 0\<rparr>"

definition column_query :: string where
  "column_query =
     [CHR 0x0A] @ ''            SELECT *'' @
     [CHR 0x0A] @ ''            FROM information_schema.columns'' @
     [CHR 0x0A] @ ''            WHERE table_name = $1'' @
     [CHR 0x0A] @ ''        ''"

definition tableColumnInformation ::
  "driver \<Rightarrow> adapter \<Rightarrow> string \<Rightarrow> event list
     \<Rightarrow> (error + table_column_info list) \<times> event list" where
  "tableColumnInformation drv a tableName log =
     (case acquire drv a log of
        (Inl e, log1) \<Rightarrow> (Inl e, log1)
      | (Inr None, log1) \<Rightarrow> (Inl (Error ''Database client is not available.''), log1)
      | (Inr (Some client), log1) \<Rightarrow>
          (case client_query drv log1 client column_query [JStr tableName] of
             Inl e \<Rightarrow> (Inl e, log1 @ [Query client column_query [JStr tableName]])
           | Inr res \<Rightarrow>
               (Inr (map (\<lambda>(r, index). column_info r index) (zip (rows res) [0 ..< length (rows res)])),
                log1 @ [Query client column_query [JStr tableName], Release client])))"


section \<open>PostgresTableSchemaBuilder\<close>

text \<open>
  A column definition as the builder methods pass it to \<open>addColumn\<close>: a name and a
  datatype that may be absent, the constraints in order (none when the field is absent)
  and the auto-increment mark (false when the field is absent).
\<close>

record column_definition =
  col_name :: "string option"
  col_datatype :: "string option"
  col_constraints :: "string list"
  col_autoincrement :: bool

record table_builder =
  columns :: "column_definition list"

definition new_table_builder :: table_builder where
  "new_table_builder = \<lparr>columns = []\<rparr>"

text \<open>
  Modelled from the spec: \<open>addColumn\<close> of the base class \<open>SchemaTableBuilder\<close>, which the
  core package provides and this repository does not contain. A definition with a name is
  appended as a new column. A definition without a name is a modifier entry: it attaches
  to the most recently added column, whose constraints it extends and which it marks
  auto-increment when the entry is so marked. Every call site that passes a modifier
  entry checks first that a column exists; without one there is nothing to attach to and
  the builder stays as it is.
\<close>

definition addColumn :: "column_definition \<Rightarrow> table_builder \<Rightarrow> table_builder" where
  "addColumn column b =
     (case col_name column of
        Some _ \<Rightarrow> b\<lparr>columns := columns b @ [column]\<rparr>
      | None \<Rightarrow>
          (case rev (columns b) of
             [] \<Rightarrow> b
           | recent # earlier \<Rightarrow>
               b\<lparr>columns := rev earlier @
                    [recent\<lparr>col_constraints := col_constraints recent @ col_constraints column,
                            col_autoincrement := col_autoincrement recent \<or> col_autoincrement column\<rparr>]\<rparr>))"

subsection \<open>Text helpers\<close>

text \<open>\<open>Array.prototype.join\<close>\<close>

fun array_join :: "string \<Rightarrow> string list \<Rightarrow> string" where
  "array_join sep [] = []"
| "array_join sep [x] = x"
| "array_join sep (x # y # ys) = x @ sep @ array_join sep (y # ys)"

text \<open>\<open>String.prototype.trim\<close>: white space and line terminators, among the code units represented.\<close>

definition is_white_space :: "char \<Rightarrow> bool" where
  "is_white_space c = ((of_char c :: nat) \<in> {9, 10, 11, 12, 13, 32, 160})"

definition trim :: "string \<Rightarrow> string" where
  "trim s = rev (dropWhile is_white_space (rev (dropWhile is_white_space s)))"

text \<open>The name of a column in a template literal; an absent name prints as \<open>undefined\<close>.\<close>

definition name_text :: "column_definition \<Rightarrow> string" where
  "name_text column = (case col_name column of Some n \<Rightarrow> n | None \<Rightarrow> ''undefined'')"

text \<open>\<open>column.datatype || ''\<close>\<close>

definition datatype_text :: "column_definition \<Rightarrow> string" where
  "datatype_text column = (case col_datatype column of Some d \<Rightarrow> d | None \<Rightarrow> [])"

subsection \<open>build\<close>

text \<open>The function \<open>build\<close> maps over the columns.\<close>

definition columnDefinition :: "column_definition \<Rightarrow> string" where
  "columnDefinition column =
     (let definition0 = trim (name_text column @ '' '' @ datatype_text column);
          definition1 = (if length (col_constraints column) > 0
                         then definition0 @ '' '' @ array_join '' '' (col_constraints column)
                         else definition0)
      in if col_autoincrement column then name_text column @ '' SERIAL'' else definition1)"

definition build :: "table_builder \<Rightarrow> string" where
  "build b = ''('' @ array_join '', '' (map columnDefinition (columns b)) @ '')''"

subsection \<open>Datatypes\<close>

definition plain_column :: "string \<Rightarrow> string \<Rightarrow> column_definition" where
  "plain_column n d =
     \<lparr>col_name = Some n, col_datatype = Some d, col_constraints = [], col_autoincrement = False\<rparr>"

definition uuid :: "string \<Rightarrow> table_builder \<Rightarrow> table_builder" where
  "uuid n b = addColumn (plain_column n ''UUID'') b"

text \<open>The optional length counts when it is given and true as a condition.\<close>

definition string_col :: "string \<Rightarrow> number option \<Rightarrow> table_builder \<Rightarrow> table_builder" where
  "string_col n len b =
     addColumn (plain_column n
       (case len of
          None \<Rightarrow> ''VARCHAR''
        | Some l \<Rightarrow> if number_truthy l then ''VARCHAR('' @ number_text l @ '')'' else ''VARCHAR'')) b"

definition text_col :: "string \<Rightarrow> table_builder \<Rightarrow> table_builder" where
  "text_col n b = addColumn (plain_column n ''TEXT'') b"

definition integer_col :: "string \<Rightarrow> table_builder \<Rightarrow> table_builder" where
  "integer_col n b = addColumn (plain_column n ''INTEGER'') b"

definition decimal ::
  "string \<Rightarrow> number option \<Rightarrow> number option \<Rightarrow> table_builder \<Rightarrow> table_builder" where
  "decimal n precision scale b =
     addColumn (plain_column n
       (case (precision, scale) of
          (Some p, Some s) \<Rightarrow> ''DECIMAL('' @ number_text p @ '','' @ number_text s @ '')''
        | _ \<Rightarrow> ''DECIMAL'')) b"

definition float_col :: "string \<Rightarrow> table_builder \<Rightarrow> table_builder" where
  "float_col n b = addColumn (plain_column n ''REAL'') b"

definition boolean_col :: "string \<Rightarrow> table_builder \<Rightarrow> table_builder" where
  "boolean_col n b = addColumn (plain_column n ''BOOLEAN'') b"

definition json :: "string \<Rightarrow> table_builder \<Rightarrow> table_builder" where
  "json n b = addColumn (plain_column n ''JSONB'') b"

text \<open>\<open>v.replace(/'/g, "''")\<close>: every single quote of the value is replaced by two.\<close>

fun replace_quotes :: "string \<Rightarrow> string" where
  "replace_quotes [] = []"
| "replace_quotes (c # cs) =
     (if c = CHR 0x27 then CHR 0x27 # CHR 0x27 # replace_quotes cs else c # replace_quotes cs)"

definition quotedValues :: "string list \<Rightarrow> string" where
  "quotedValues vs = array_join '', '' (map (\<lambda>v. [CHR 0x27] @ replace_quotes v @ [CHR 0x27]) vs)"

definition enum_col :: "string \<Rightarrow> string list \<Rightarrow> table_builder \<Rightarrow> table_builder" where
  "enum_col n vs b =
     addColumn \<lparr>col_name = Some n, col_datatype = Some ''TEXT'',
                col_constraints = [''CHECK ('' @ n @ '' IN ('' @ quotedValues vs @ ''))''],
                col_autoincrement = False\<rparr> b"

definition timestamp :: "string \<Rightarrow> table_builder \<Rightarrow> table_builder" where
  "timestamp n b = addColumn (plain_column n ''TIMESTAMP'') b"

definition time_col :: "string \<Rightarrow> table_builder \<Rightarrow> table_builder" where
  "time_col n b = addColumn (plain_column n ''TIME'') b"

definition timestamps :: "table_builder \<Rightarrow> table_builder" where
  "timestamps b =
     addColumn \<lparr>col_name = Some ''updated_at'', col_datatype = Some ''TIMESTAMP'',
                col_constraints = [''DEFAULT CURRENT_TIMESTAMP''], col_autoincrement = False\<rparr>
       (addColumn \<lparr>col_name = Some ''created_at'', col_datatype = Some ''TIMESTAMP'',
                   col_constraints = [''DEFAULT CURRENT_TIMESTAMP''], col_autoincrement = False\<rparr> b)"

subsection \<open>Constraints\<close>

definition modifier :: "string list \<Rightarrow> bool \<Rightarrow> column_definition" where
  "modifier cs auto =
     \<lparr>col_name = None, col_datatype = None, col_constraints = cs, col_autoincrement = auto\<rparr>"

definition increments :: "table_builder \<Rightarrow> error + table_builder" where
  "increments b =
     (if length (columns b) = 0
      then Inl (Error ''increments() requires a previous column. Call a datatype method first.'')
      else Inr (addColumn (modifier [] True) b))"

definition primaryKey :: "table_builder \<Rightarrow> error + table_builder" where
  "primaryKey b =
     (if length (columns b) = 0
      then Inl (Error ''primaryKey() requires a previous column. Call a datatype method first.'')
      else Inr (addColumn (modifier [''PRIMARY KEY''] False) b))"

definition foreignKey :: "string \<Rightarrow> string \<Rightarrow> table_builder \<Rightarrow> error + table_builder" where
  "foreignKey referenceTable referenceColumn b =
     (if length (columns b) = 0
      then Inl (Error ''foreignKey() requires a previous column. Call a datatype method first.'')
      else Inr (addColumn
                  (modifier [''REFERENCES '' @ referenceTable @ ''('' @ referenceColumn @ '')''] False) b))"

definition unique :: "table_builder \<Rightarrow> error + table_builder" where
  "unique b =
     (if length (columns b) = 0
      then Inl (Error ''unique() requires a previous column. Call a datatype method first.'')
      else Inr (addColumn (modifier [''UNIQUE''] False) b))"

definition nullable :: "table_builder \<Rightarrow> error + table_builder" where
  "nullable b =
     (if length (columns b) = 0
      then Inl (Error ''nullable() requires a previous column. Call a datatype method first.'')
      else Inr (addColumn (modifier [''NULLABLE''] False) b))"

text \<open>\<open>String(value)\<close>, which the last branch of \<open>defaultTo\<close> applies, and the template literal.\<close>

fun js_String :: "jsval \<Rightarrow> string" where
  "js_String JUndefined = ''undefined''"
| "js_String JNull = ''null''"
| "js_String (JBool v) = (if v then ''true'' else ''false'')"
| "js_String (JNum n) = number_text n"
| "js_String (JStr s) = s"
| "js_String (JObj s) = s"

definition defaultValue :: "jsval \<Rightarrow> string" where
  "defaultValue v =
     (case v of
        JStr s \<Rightarrow> [CHR 0x27] @ s @ [CHR 0x27]
      | JNum n \<Rightarrow> js_String (JNum n)
      | JBool t \<Rightarrow> js_String (JBool t)
      | _ \<Rightarrow> js_String v)"

definition defaultTo :: "jsval \<Rightarrow> table_builder \<Rightarrow> error + table_builder" where
  "defaultTo v b =
     (if length (columns b) = 0
      then Inl (Error ''defaultTo() requires a previous column. Call a datatype method first.'')
      else Inr (addColumn (modifier [''DEFAULT '' @ defaultValue v] False) b))"

definition softDeletes :: "table_builder \<Rightarrow> error + table_builder" where
  "softDeletes b = nullable (addColumn (plain_column ''deleted_at'' ''TIMESTAMP'') b)"

definition morphs :: "string \<Rightarrow> table_builder \<Rightarrow> table_builder" where
  "morphs n b = string_col (n @ ''_type'') None (integer_col (n @ ''_id'') b)"

section \<open>PostgresSchemaBuilder\<close>

text \<open>
  \<open>createTable\<close> and \<open>dropTable\<close> call \<open>statement.run()\<close> and do not await the promise it
  returns. The outcome of a dispatch therefore has two parts: what the promise returned to
  the caller settles with, and what the promise left floating settles with, which no
  caller receives. The calls that \<open>run\<close> makes to the driver are in the history.
\<close>

record dispatch =
  returned :: "error + unit"
  floating :: "(error + query_result option) option"

definition createTable ::
  "driver \<Rightarrow> adapter \<Rightarrow> string \<Rightarrow> (table_builder \<Rightarrow> error + table_builder) \<Rightarrow> event list
     \<Rightarrow> dispatch \<times> event list" where
  "createTable drv a n callback log =
     (case callback new_table_builder of
        Inl e \<Rightarrow> (\<lparr>returned = Inl e, floating = None\<rparr>, log)
      | Inr tableBuilder \<Rightarrow>
          (let cols = build tableBuilder;
               query = ''CREATE TABLE IF NOT EXISTS '' @ n @ '' '' @ cols
           in case prepare drv a query log of
                (Inl e, log1) \<Rightarrow> (\<lparr>returned = Inl e, floating = None\<rparr>, log1)
              | (Inr statement, log1) \<Rightarrow>
                  (case run drv statement None log1 of
                     (res, _, log2) \<Rightarrow> (\<lparr>returned = Inr (), floating = Some res\<rparr>, log2))))"

definition dropTable :: "driver \<Rightarrow> adapter \<Rightarrow> string \<Rightarrow> event list \<Rightarrow> dispatch \<times> event list" where
  "dropTable drv a n log =
     (let query = ''DROP TABLE IF EXISTS '' @ n
      in case prepare drv a query log of
           (Inl e, log1) \<Rightarrow> (\<lparr>returned = Inl e, floating = None\<rparr>, log1)
         | (Inr statement, log1) \<Rightarrow>
             (case run drv statement None log1 of
                (res, _, log2) \<Rightarrow> (\<lparr>returned = Inr (), floating = Some res\<rparr>, log2)))"

definition alterTable :: "string \<Rightarrow> (table_builder \<Rightarrow> error + table_builder) \<Rightarrow> error + unit" where
  "alterTable oldName callback = Inl (Error ''Method not implemented.'')"


section \<open>Notions used to state the properties\<close>

subsection \<open>Names, first appearance and positions\<close>

text \<open>The names of the parameter tokens of a query text, in the order of the text.\<close>

fun param_names :: "segment list \<Rightarrow> string list" where
  "param_names [] = []"
| "param_names (Lit c # segs) = param_names segs"
| "param_names (Param name # segs) = name # param_names segs"

definition query_names :: "string \<Rightarrow> string list" where
  "query_names q = param_names (regex_scan q)"

text \<open>The distinct elements of a list, each at the place of its first occurrence.\<close>

primrec first_appearance :: "'a list \<Rightarrow> 'a list" where
  "first_appearance [] = []"
| "first_appearance (x # xs) = x # filter (\<lambda>y. y \<noteq> x) (first_appearance xs)"

text \<open>The position of an element in a list, counted from 1.\<close>

definition position :: "'a \<Rightarrow> 'a list \<Rightarrow> nat" where
  "position x xs = Suc (length (takeWhile (\<lambda>y. y \<noteq> x) xs))"

text \<open>
  The text a piece of the query becomes once every name has its index: a code unit stays,
  a token becomes \<open>$\<close> and the position of its name in the given order.
\<close>

fun placeholder_text :: "string list \<Rightarrow> segment \<Rightarrow> string" where
  "placeholder_text order (Lit c) = [c]"
| "placeholder_text order (Param name) = CHR ''$'' # show_nat (position name order)"

text \<open>
  The state of the callback after the names \<open>sn\<close> have been met, in this order: every one
  of them is mapped to its position, the next index is one more than their number, and
  the values are what the property reads gave, in the same order.
\<close>

definition translated :: "jsobject \<Rightarrow> translation \<Rightarrow> string list \<Rightarrow> bool" where
  "translated ps t sn =
     (distinct sn \<and> paramIndex t = Suc (length sn) \<and> values_list t = map (get_prop ps) sn \<and>
      paramMap t = (\<lambda>n. if n \<in> set sn then Some (position n sn) else None))"

definition met :: "string list \<Rightarrow> string \<Rightarrow> string list" where
  "met sn n = (if n \<in> set sn then sn else sn @ [n])"

subsection \<open>Reading a decimal numeral\<close>

text \<open>The number a string of decimal digits denotes, and the integer a signed one denotes.\<close>

definition digit_value :: "char \<Rightarrow> nat" where
  "digit_value c = of_char c - 48"

definition read_nat :: "string \<Rightarrow> nat" where
  "read_nat s = foldl (\<lambda>a c. 10 * a + digit_value c) 0 s"

definition read_int :: "string \<Rightarrow> int" where
  "read_int s =
     (case s of
        [] \<Rightarrow> 0
      | c # cs \<Rightarrow> if c = CHR ''-'' then - int (read_nat cs) else int (read_nat s))"

definition is_digit :: "char \<Rightarrow> bool" where
  "is_digit c = (48 \<le> (of_char c :: nat) \<and> (of_char c :: nat) \<le> 57)"

subsection \<open>Attaching a constraint\<close>

text \<open>The builder whose most recent column has one more constraint, at the end.\<close>

definition with_constraint :: "table_builder \<Rightarrow> string \<Rightarrow> table_builder" where
  "with_constraint b c =
     b\<lparr>columns := butlast (columns b) @
          [(last (columns b))\<lparr>col_constraints := col_constraints (last (columns b)) @ [c]\<rparr>]\<rparr>"

subsection \<open>Counting calls to the driver\<close>

definition releases :: "nat \<Rightarrow> event list \<Rightarrow> nat" where
  "releases c log = count_list log (Release c)"


text \<open>What a call of one of the three entry points of a statement leaves behind.\<close>

datatype entry_point = Run | All | Get

definition after_call ::
  "entry_point \<Rightarrow> driver \<Rightarrow> statement \<Rightarrow> jsobject option \<Rightarrow> event list \<Rightarrow> statement \<times> event list" where
  "after_call ep drv s parameters log =
     (case ep of
        Run \<Rightarrow> snd (run drv s parameters log)
      | All \<Rightarrow> snd (all_rows drv s parameters log)
      | Get \<Rightarrow> snd (get_row drv s parameters log))"


subsection \<open>Concrete inputs\<close>

text \<open>
  A driver whose pool hands out client 1 and whose queries succeed without rows, except
  the query with the given text, which fails.
\<close>

definition failing_driver :: "string \<Rightarrow> driver" where
  "failing_driver bad =
     \<lparr>pool_connect = (\<lambda>log. Inr 1),
      client_query = (\<lambda>log c sql vals.
         if sql = bad then Inl (DriverError ''query failed'')
         else Inr \<lparr>rows = [], command = sql\<rparr>)\<rparr>"

definition connected :: adapter where
  "connected = connect \<lparr>a_pool = None\<rparr> ''postgres://localhost/app''"



definition id_column :: "table_builder \<Rightarrow> error + table_builder" where
  "id_column table = Inr (integer_col ''id'' table)"

section \<open>Properties of the parameter translation\<close>


lemma position_append_mem: "x \<in> set xs \<Longrightarrow> position x (xs @ ys) = position x xs"
proof -
  assume "x \<in> set xs"
  then have "takeWhile (\<lambda>y. y \<noteq> x) (xs @ ys) = takeWhile (\<lambda>y. y \<noteq> x) xs"
    by (intro takeWhile_append1[of x]) simp_all
  then show ?thesis by (simp add: position_def)
qed

lemma position_append_new: "x \<notin> set xs \<Longrightarrow> position x (xs @ [x]) = Suc (length xs)"
proof -
  assume "x \<notin> set xs"
  then have "takeWhile (\<lambda>y. y \<noteq> x) (xs @ [x]) = xs @ takeWhile (\<lambda>y. y \<noteq> x) [x]"
    by (intro takeWhile_append2) auto
  then show ?thesis by (simp add: position_def)
qed

lemma first_appearance_set: "set (first_appearance xs) = set xs"
  by (induction xs) auto

lemma first_appearance_distinct: "distinct (first_appearance xs)"
  by (induction xs) (auto simp: first_appearance_set)

lemma length_first_appearance: "length (first_appearance xs) = card (set xs)"
  using distinct_card[OF first_appearance_distinct, of xs] by (simp add: first_appearance_set)

lemma takeWhile_filter_commute:
  "(\<And>y. \<not> P y \<Longrightarrow> Q y) \<Longrightarrow> takeWhile P (filter Q ys) = filter Q (takeWhile P ys)"
  by (induction ys) auto

lemma takeWhile_first_appearance:
  "takeWhile (\<lambda>y. y \<noteq> x) (first_appearance xs) = first_appearance (takeWhile (\<lambda>y. y \<noteq> x) xs)"
proof (induction xs)
  case Nil
  then show ?case by simp
next
  case (Cons a xs)
  show ?case
  proof (cases "a = x")
    case True
    then show ?thesis by simp
  next
    case False
    then have "takeWhile (\<lambda>y. y \<noteq> x) (filter (\<lambda>y. y \<noteq> a) (first_appearance xs))
               = filter (\<lambda>y. y \<noteq> a) (takeWhile (\<lambda>y. y \<noteq> x) (first_appearance xs))"
      by (intro takeWhile_filter_commute) auto
    with False Cons show ?thesis by simp
  qed
qed

lemma position_first_appearance:
  "position x (first_appearance xs) = Suc (card (set (takeWhile (\<lambda>y. y \<noteq> x) xs)))"
proof -
  have "length (first_appearance (takeWhile (\<lambda>y. y \<noteq> x) xs))
        = card (set (first_appearance (takeWhile (\<lambda>y. y \<noteq> x) xs)))"
    by (rule distinct_card[symmetric]) (rule first_appearance_distinct)
  then show ?thesis
    by (simp add: position_def takeWhile_first_appearance first_appearance_set)
qed

lemma nth_position:
  "x \<in> set xs \<Longrightarrow> position x xs \<le> length xs \<and> xs ! (position x xs - 1) = x"
  by (induction xs) (auto simp: position_def)

lemma replace_callback_translated:
  assumes "translated ps t sn"
  shows "fst (replace_callback ps t n) = CHR ''$'' # show_nat (position n (met sn n))"
    and "translated ps (snd (replace_callback ps t n)) (met sn n)"
  using assms
  by (auto simp: translated_def replace_callback_def met_def Let_def
        position_append_new position_append_mem fun_eq_iff)

lemma met_filter:
  "met sn n @ filter (\<lambda>y. y \<notin> set (met sn n)) xs
   = sn @ filter (\<lambda>y. y \<notin> set sn) (n # filter (\<lambda>y. y \<noteq> n) xs)"
  by (auto simp: met_def intro: filter_cong)

lemma replace_all_translated:
  assumes "translated ps t sn"
  shows "fst (replace_all ps segs t)
           = concat (map (placeholder_text
                            (sn @ filter (\<lambda>y. y \<notin> set sn) (first_appearance (param_names segs)))) segs)
         \<and> translated ps (snd (replace_all ps segs t))
             (sn @ filter (\<lambda>y. y \<notin> set sn) (first_appearance (param_names segs)))"
  using assms
proof (induction segs arbitrary: t sn rule: param_names.induct)
  case 1
  then show ?case by simp
next
  case (2 c segs)
  from 2 show ?case by (simp add: split_beta)
next
  case (3 name segs)
  let ?t1 = "snd (replace_callback ps t name)"
  let ?sn1 = "met sn name"
  let ?fin = "sn @ filter (\<lambda>y. y \<notin> set sn) (first_appearance (param_names (Param name # segs)))"
  have inv1: "translated ps ?t1 ?sn1"
    using 3 replace_callback_translated(2) by blast
  have fin: "?sn1 @ filter (\<lambda>y. y \<notin> set ?sn1) (first_appearance (param_names segs)) = ?fin"
    using met_filter[of sn name "first_appearance (param_names segs)"] by simp
  have mem: "name \<in> set ?sn1" by (simp add: met_def)
  have pos: "position name ?fin = position name ?sn1"
    using position_append_mem[OF mem] fin by metis
  from "3.IH"[OF inv1] fin pos replace_callback_translated(1)[OF "3.prems"]
  show ?case by (simp add: split_beta)
qed

lemma transformQuery_eq:
  assumes "Object_keys ps \<noteq> []"
  shows "transformQuery q (Some ps) =
           (concat (map (placeholder_text (first_appearance (query_names q))) (regex_scan q)),
            map (get_prop ps) (first_appearance (query_names q)))"
proof -
  have "translated ps \<lparr>paramMap = Map.empty, paramIndex = 1, values_list = []\<rparr> []"
    by (simp add: translated_def)
  from replace_all_translated[OF this, of "regex_scan q"] assms
  show ?thesis by (simp add: transformQuery_def split_beta translated_def query_names_def)
qed

text \<open>
  C1. When the parameter object has at least one key, \<open>transformQuery\<close> gives every
  distinct name of the text one positional index: the names are numbered from 1 in the
  order of their first appearance, so the index of a name is one more than the number of
  distinct names that occur before it; every occurrence of a name is replaced by \<open>$\<close> and
  the index of the name; the values are the property reads of the distinct names in that
  order, each once, so there are as many values as distinct names.
\<close>

theorem transformQuery_one_index_per_name:
  assumes "Object_keys ps \<noteq> []"
  shows "transformQuery q (Some ps) =
           (concat (map (placeholder_text (first_appearance (query_names q))) (regex_scan q)),
            map (get_prop ps) (first_appearance (query_names q)))
         \<and> distinct (first_appearance (query_names q))
         \<and> set (first_appearance (query_names q)) = set (query_names q)
         \<and> (\<forall>n. position n (first_appearance (query_names q))
                = Suc (card (set (takeWhile (\<lambda>m. m \<noteq> n) (query_names q)))))
         \<and> length (snd (transformQuery q (Some ps))) = card (set (query_names q))"
  using transformQuery_eq[OF assms, of q]
  by (simp add: first_appearance_distinct first_appearance_set position_first_appearance
        length_first_appearance)

theorem transformQuery_one_index_per_name_witness:
  "Object_keys (object_literal [(''x'', JNum (Whole 5)), (''y'', JNum (Whole 7))]) \<noteq> []
   \<and> transformQuery ''a=@x AND b=@x AND c=@y'' (Some (object_literal [(''x'', JNum (Whole 5)), (''y'', JNum (Whole 7))]))
       = (''a=$1 AND b=$1 AND c=$2'', [JNum (Whole 5), JNum (Whole 7)])
   \<and> card (set (query_names ''a=@x AND b=@x AND c=@y'')) = 2"
proof -
  let ?ps = "object_literal [(''x'', JNum (Whole 5)), (''y'', JNum (Whole 7))]"
  let ?q = "''a=@x AND b=@x AND c=@y''"
  have h: "Object_keys ?ps \<noteq> []"
    by (simp add: Object_keys_def object_literal_def)
  have names: "first_appearance (query_names ?q) = [''x'', ''y'']"
    by code_simp
  have rendered: "concat (map (placeholder_text [''x'', ''y'']) (regex_scan ?q)) = ''a=$1 AND b=$1 AND c=$2''"
    by code_simp
  have vals: "map (get_prop ?ps) [''x'', ''y''] = [JNum (Whole 5), JNum (Whole 7)]"
    by code_simp
  have two: "card (set (query_names ?q)) = 2"
    by code_simp
  have "transformQuery ?q (Some ?ps) = (''a=$1 AND b=$1 AND c=$2'', [JNum (Whole 5), JNum (Whole 7)])"
    using transformQuery_one_index_per_name[OF h, of ?q] unfolding names rendered vals by blast
  with h two show ?thesis by blast
qed

text \<open>
  C9, as stated, fails. The object literal \<open>{x: 5}\<close> has no entry \<open>toString\<close>, and
  the value bound for the token \<open>@toString\<close> is the function the object inherits from
  \<open>Object.prototype\<close>, not \<open>undefined\<close>.
\<close>

theorem missing_key_counterexample:
  "Object_keys (object_literal [(''x'', JNum (Whole 5))]) \<noteq> []
   \<and> ''toString'' \<in> set (query_names ''SELECT @toString'')
   \<and> ''toString'' \<notin> set (Object_keys (object_literal [(''x'', JNum (Whole 5))]))
   \<and> transformQuery ''SELECT @toString'' (Some (object_literal [(''x'', JNum (Whole 5))]))
       = (''SELECT $1'', [JObj ''function toString() { [native code] }''])"
  by code_simp

text \<open>
  C9, amended. For a name of the text that is not a key of the parameter object, the
  translation succeeds all the same: the token is replaced by its positional placeholder,
  and the value at that position is what the property read gives, which is \<open>undefined\<close>
  unless the object inherits a property of that name, and the inherited value then.
\<close>

theorem missing_key_reads_property:
  assumes "Object_keys ps \<noteq> []"
    and "name \<in> set (query_names q)"
    and "name \<notin> set (Object_keys ps)"
  shows "fst (transformQuery q (Some ps))
           = concat (map (placeholder_text (first_appearance (query_names q))) (regex_scan q))
         \<and> 1 \<le> position name (first_appearance (query_names q))
         \<and> position name (first_appearance (query_names q)) \<le> length (snd (transformQuery q (Some ps)))
         \<and> snd (transformQuery q (Some ps)) ! (position name (first_appearance (query_names q)) - 1)
             = (case map_of (inherited ps) name of Some v \<Rightarrow> v | None \<Rightarrow> JUndefined)"
proof -
  let ?order = "first_appearance (query_names q)"
  have mem: "name \<in> set ?order"
    using assms(2) by (simp add: first_appearance_set)
  have own_None: "map_of (own ps) name = None"
    using assms(3) by (simp add: Object_keys_def map_of_eq_None_iff)
  have nth: "position name ?order \<le> length ?order \<and> ?order ! (position name ?order - 1) = name"
    by (rule nth_position[OF mem])
  have lt: "position name ?order - 1 < length ?order"
    using nth by (simp add: position_def)
  have "map (get_prop ps) ?order ! (position name ?order - 1) = get_prop ps name"
    using nth_map[OF lt, of "get_prop ps"] nth by simp
  with transformQuery_eq[OF assms(1), of q] nth own_None
  show ?thesis by (simp add: get_prop_def position_def)
qed

theorem missing_key_reads_property_witness:
  "Object_keys (object_literal [(''x'', JNum (Whole 5))]) \<noteq> []
   \<and> ''y'' \<in> set (query_names ''a=@x AND b=@y'')
   \<and> ''y'' \<notin> set (Object_keys (object_literal [(''x'', JNum (Whole 5))]))
   \<and> position ''y'' (first_appearance (query_names ''a=@x AND b=@y'')) = 2
   \<and> snd (transformQuery ''a=@x AND b=@y'' (Some (object_literal [(''x'', JNum (Whole 5))]))) ! (2 - 1)
       = JUndefined"
proof -
  let ?ps = "object_literal [(''x'', JNum (Whole 5))]"
  let ?q = "''a=@x AND b=@y''"
  have h1: "Object_keys ?ps \<noteq> []"
    by (simp add: Object_keys_def object_literal_def)
  have h2: "''y'' \<in> set (query_names ?q)"
    by code_simp
  have h3: "''y'' \<notin> set (Object_keys ?ps)"
    by code_simp
  have pos: "position ''y'' (first_appearance (query_names ?q)) = 2"
    by code_simp
  have inh: "(case map_of (inherited ?ps) ''y'' of Some v \<Rightarrow> v | None \<Rightarrow> JUndefined) = JUndefined"
    by code_simp
  have "snd (transformQuery ?q (Some ?ps)) ! (2 - 1) = JUndefined"
    using missing_key_reads_property[OF h1 h2 h3] unfolding pos inh by blast
  with h1 h2 h3 pos show ?thesis by blast
qed

section \<open>Properties of the statement\<close>

lemma after_call_eq:
  "after_call ep drv s p log =
     finally_release s
       (snd (optional_query drv s (fst (transformQuery (s_query s) p))
               (snd (transformQuery (s_query s) p)) log))"
  by (cases ep) (simp_all add: after_call_def run_def all_rows_def get_row_def split_beta)

lemma optional_query_log:
  "snd (optional_query drv s q v log)
     = (case s_client s of None \<Rightarrow> log | Some c \<Rightarrow> log @ [Query c q v])"
  by (simp add: optional_query_def split: option.splits sum.splits)

lemma after_call_released:
  "s_client s = None \<Longrightarrow> after_call ep drv s p log = (s, log)"
  by (simp add: after_call_eq optional_query_log finally_release_def)

lemma after_call_client:
  "s_client s = Some c \<Longrightarrow>
     after_call ep drv s p log =
       (s\<lparr>s_client := None\<rparr>,
        log @ [Query c (fst (transformQuery (s_query s) p)) (snd (transformQuery (s_query s) p)),
               Release c])"
  by (simp add: after_call_eq optional_query_log finally_release_def)

text \<open>
  C5. A statement that holds a client releases it exactly once in the first call of
  \<open>run\<close>, \<open>all\<close> or \<open>get\<close>, whatever the parameters are and whether the driver's query
  succeeds or fails, and releases no other client; the statement has no client afterwards,
  and any further call of an entry point changes neither the statement nor the history:
  it issues no query and no second release.
\<close>

theorem statement_released_once:
  assumes "s_client s = Some c"
  shows "(\<forall>c'. releases c' (snd (after_call ep drv s p log))
                 = releases c' log + (if c' = c then 1 else 0))
         \<and> s_client (fst (after_call ep drv s p log)) = None
         \<and> (\<forall>ep2 drv2 p2 log2.
               after_call ep2 drv2 (fst (after_call ep drv s p log)) p2 log2
                 = (fst (after_call ep drv s p log), log2))"
proof -
  have "s_client (fst (after_call ep drv s p log)) = None"
    using assms by (simp add: after_call_client)
  then have "\<forall>ep2 drv2 p2 log2.
               after_call ep2 drv2 (fst (after_call ep drv s p log)) p2 log2
                 = (fst (after_call ep drv s p log), log2)"
    by (simp add: after_call_released)
  then show ?thesis
    using assms by (simp add: after_call_client releases_def)
qed

theorem statement_released_once_witness:
  "s_client \<lparr>s_query = ''SELECT 1'', s_client = Some 1\<rparr> = Some 1
   \<and> releases 1 (snd (after_call Get (failing_driver ''SELECT 1'')
                         \<lparr>s_query = ''SELECT 1'', s_client = Some 1\<rparr> None [])) = 1
   \<and> after_call Run (failing_driver ''SELECT 1'')
        (fst (after_call Get (failing_driver ''SELECT 1'')
                \<lparr>s_query = ''SELECT 1'', s_client = Some 1\<rparr> None [])) None
        [Query 1 ''SELECT 1'' [], Release 1]
       = (fst (after_call Get (failing_driver ''SELECT 1'')
                \<lparr>s_query = ''SELECT 1'', s_client = Some 1\<rparr> None []),
          [Query 1 ''SELECT 1'' [], Release 1])"
proof -
  let ?s = "\<lparr>s_query = ''SELECT 1'', s_client = Some 1\<rparr>"
  have h: "s_client ?s = Some 1" by simp
  have zero: "releases 1 [] = 0" by (simp add: releases_def)
  from statement_released_once[OF h, of Get "failing_driver ''SELECT 1''" None "[]"] zero h
  show ?thesis by simp
qed

text \<open>
  C6. When the driver's query succeeds with no rows, \<open>all\<close> returns the empty array and
  \<open>get\<close> returns \<open>undefined\<close>; neither raises.
\<close>

theorem empty_result_set:
  assumes "s_client s = Some c"
    and "client_query drv log c (fst (transformQuery (s_query s) p))
           (snd (transformQuery (s_query s) p)) = Inr res"
    and "rows res = []"
  shows "fst (all_rows drv s p log) = Inr [] \<and> fst (get_row drv s p log) = Inr None"
  using assms
  by (simp add: all_rows_def get_row_def optional_query_def split_beta)

theorem empty_result_set_witness:
  "s_client \<lparr>s_query = ''SELECT * FROM t'', s_client = Some 1\<rparr> = Some 1
   \<and> rows \<lparr>rows = [], command = ''SELECT * FROM t''\<rparr> = []
   \<and> fst (all_rows (failing_driver ''BEGIN'') \<lparr>s_query = ''SELECT * FROM t'', s_client = Some 1\<rparr> None [])
       = Inr []
   \<and> fst (get_row (failing_driver ''BEGIN'') \<lparr>s_query = ''SELECT * FROM t'', s_client = Some 1\<rparr> None [])
       = Inr None"
proof -
  let ?s = "\<lparr>s_query = ''SELECT * FROM t'', s_client = Some 1\<rparr>"
  let ?res = "\<lparr>rows = [], command = ''SELECT * FROM t''\<rparr>"
  have h1: "s_client ?s = Some 1" by simp
  have h2: "client_query (failing_driver ''BEGIN'') [] 1 (fst (transformQuery (s_query ?s) None))
              (snd (transformQuery (s_query ?s) None)) = Inr ?res"
    by (simp add: failing_driver_def transformQuery_def)
  have h3: "rows ?res = []" by simp
  from empty_result_set[OF h1 h2 h3] h1 h3 show ?thesis by blast
qed

section \<open>Properties of the adapter\<close>






text \<open>
  C3. The code at the failing input: the driver rejects the catalog query of
  \<open>tableColumnInformation\<close>; the error reaches the caller and the client acquired from
  the pool is never released.
\<close>

theorem tableColumnInformation_query_failure:
  "tableColumnInformation (failing_driver column_query) connected ''users'' []
     = (Inl (DriverError ''query failed''), [Connect 1, Query 1 column_query [JStr ''users'']])
   \<and> releases 1 (snd (tableColumnInformation (failing_driver column_query) connected ''users'' [])) = 0"
  by code_simp

text \<open>
  C4. The code at the failing input: the driver rejects the statement that \<open>createTable\<close>
  or \<open>dropTable\<close> dispatches; the promise returned to the caller is fulfilled, and the
  error settles only the promise of \<open>run\<close>, which nobody awaits.
\<close>

theorem schema_dispatch_failure:
  "createTable (failing_driver ''CREATE TABLE IF NOT EXISTS t (id INTEGER)'') connected ''t'' id_column []
     = (\<lparr>returned = Inr (), floating = Some (Inl (DriverError ''query failed''))\<rparr>,
        [Connect 1, Query 1 ''CREATE TABLE IF NOT EXISTS t (id INTEGER)'' [], Release 1])
   \<and> dropTable (failing_driver ''DROP TABLE IF EXISTS t'') connected ''t'' []
     = (\<lparr>returned = Inr (), floating = Some (Inl (DriverError ''query failed''))\<rparr>,
        [Connect 1, Query 1 ''DROP TABLE IF EXISTS t'' [], Release 1])"
  by code_simp

section \<open>Properties of the table builder\<close>

lemma addColumn_modifier:
  assumes "columns b \<noteq> []"
  shows "addColumn (modifier cs auto) b =
           b\<lparr>columns := butlast (columns b) @
                [(last (columns b))
                   \<lparr>col_constraints := col_constraints (last (columns b)) @ cs,
                    col_autoincrement := col_autoincrement (last (columns b)) \<or> auto\<rparr>]\<rparr>"
proof -
  from assms obtain xs x where split: "columns b = xs @ [x]"
    by (metis append_butlast_last_id)
  then show ?thesis
    by (simp add: addColumn_def modifier_def)
qed

lemma addColumn_named:
  "col_name column = Some n \<Longrightarrow> columns (addColumn column b) = columns b @ [column]"
  by (simp add: addColumn_def)

text \<open>
  C7. On a builder without columns each of \<open>unique\<close>, \<open>primaryKey\<close>, \<open>foreignKey\<close>,
  \<open>nullable\<close>, \<open>defaultTo\<close> and \<open>increments\<close> throws an error that names the method and
  says that a previous column is required; on a builder with at least one column none of
  them throws.
\<close>

theorem modifiers_require_column:
  "(columns b = [] \<longrightarrow>
      unique b = Inl (Error ''unique() requires a previous column. Call a datatype method first.'')
      \<and> primaryKey b = Inl (Error ''primaryKey() requires a previous column. Call a datatype method first.'')
      \<and> foreignKey referenceTable referenceColumn b
          = Inl (Error ''foreignKey() requires a previous column. Call a datatype method first.'')
      \<and> nullable b = Inl (Error ''nullable() requires a previous column. Call a datatype method first.'')
      \<and> defaultTo v b = Inl (Error ''defaultTo() requires a previous column. Call a datatype method first.'')
      \<and> increments b = Inl (Error ''increments() requires a previous column. Call a datatype method first.''))
   \<and> (columns b \<noteq> [] \<longrightarrow>
      (\<exists>b'. unique b = Inr b') \<and> (\<exists>b'. primaryKey b = Inr b')
      \<and> (\<exists>b'. foreignKey referenceTable referenceColumn b = Inr b')
      \<and> (\<exists>b'. nullable b = Inr b') \<and> (\<exists>b'. defaultTo v b = Inr b')
      \<and> (\<exists>b'. increments b = Inr b'))"
  by (simp add: unique_def primaryKey_def foreignKey_def nullable_def defaultTo_def increments_def)

theorem modifiers_require_column_witness:
  "columns new_table_builder = []
   \<and> unique new_table_builder
       = Inl (Error ''unique() requires a previous column. Call a datatype method first.'')
   \<and> increments new_table_builder
       = Inl (Error ''increments() requires a previous column. Call a datatype method first.'')
   \<and> columns (integer_col ''id'' new_table_builder) \<noteq> []
   \<and> (\<exists>b'. primaryKey (integer_col ''id'' new_table_builder) = Inr b')"
proof -
  have h1: "columns new_table_builder = []"
    by (simp add: new_table_builder_def)
  have h2: "columns (integer_col ''id'' new_table_builder) \<noteq> []"
    by (simp add: integer_col_def plain_column_def addColumn_def)
  from modifiers_require_column[of new_table_builder] h1
  have a: "unique new_table_builder
             = Inl (Error ''unique() requires a previous column. Call a datatype method first.'')
           \<and> increments new_table_builder
             = Inl (Error ''increments() requires a previous column. Call a datatype method first.'')"
    by blast
  from modifiers_require_column[of "integer_col ''id'' new_table_builder"] h2
  have b: "\<exists>b'. primaryKey (integer_col ''id'' new_table_builder) = Inr b'"
    by blast
  from h1 h2 a b show ?thesis by blast
qed

lemma replace_quotes_concat:
  "replace_quotes v = concat (map (\<lambda>c. if c = CHR 0x27 then [CHR 0x27, CHR 0x27] else [c]) v)"
  by (induction v) simp_all

lemma replace_quotes_count:
  "count_list (replace_quotes v) (CHR 0x27) = 2 * count_list v (CHR 0x27)"
  by (induction v) simp_all

lemma enum_col_columns:
  "columns (enum_col n vs b) =
     columns b @ [\<lparr>col_name = Some n, col_datatype = Some ''TEXT'',
                   col_constraints = [''CHECK ('' @ n @ '' IN ('' @ quotedValues vs @ ''))''],
                   col_autoincrement = False\<rparr>]"
  by (simp add: enum_col_def addColumn_def)

lemma status_definition:
  "columnDefinition \<lparr>col_name = Some ''status'', col_datatype = Some ''TEXT'',
      col_constraints = [''CHECK ('' @ ''status'' @ '' IN ('' @ quotedValues [''draft'', ''published''] @ ''))''],
      col_autoincrement = False\<rparr>
   = ''status TEXT CHECK (status IN ('draft', 'published'))''"
  by code_simp

lemma status_build:
  "build (enum_col ''status'' [''draft'', ''published''] new_table_builder)
   = ''(status TEXT CHECK (status IN ('draft', 'published')))''"
  by code_simp

text \<open>
  C8. \<open>enum('status', ['draft', 'published'])\<close> adds a column that \<open>build\<close> renders as
  \<open>status TEXT CHECK (status IN ('draft', 'published'))\<close>, between the parentheses of the
  clause. In general \<open>enum\<close> appends a \<open>TEXT\<close> column whose only constraint is the
  membership check over the values, each between single quotes and with every single
  quote of the value doubled, so the quotes of a value are twice as many afterwards.
\<close>

theorem enum_renders_check:
  "columnDefinition (last (columns (enum_col ''status'' [''draft'', ''published''] b)))
     = ''status TEXT CHECK (status IN ('draft', 'published'))''
   \<and> build (enum_col ''status'' [''draft'', ''published''] new_table_builder)
     = ''(status TEXT CHECK (status IN ('draft', 'published')))''
   \<and> columns (enum_col n vs b)
     = columns b @
       [\<lparr>col_name = Some n, col_datatype = Some ''TEXT'',
         col_constraints =
           [''CHECK ('' @ n @ '' IN ('' @
              array_join '', ''
                (map (\<lambda>v. [CHR 0x27]
                        @ concat (map (\<lambda>c. if c = CHR 0x27 then [CHR 0x27, CHR 0x27] else [c]) v)
                        @ [CHR 0x27]) vs)
              @ ''))''],
         col_autoincrement = False\<rparr>]
   \<and> count_list (replace_quotes v) (CHR 0x27) = 2 * count_list v (CHR 0x27)"
proof -
  have "columnDefinition (last (columns (enum_col ''status'' [''draft'', ''published''] b)))
          = ''status TEXT CHECK (status IN ('draft', 'published'))''"
    unfolding enum_col_columns using status_definition by simp
  moreover have "columns (enum_col n vs b)
     = columns b @
       [\<lparr>col_name = Some n, col_datatype = Some ''TEXT'',
         col_constraints =
           [''CHECK ('' @ n @ '' IN ('' @
              array_join '', ''
                (map (\<lambda>v. [CHR 0x27]
                        @ concat (map (\<lambda>c. if c = CHR 0x27 then [CHR 0x27, CHR 0x27] else [c]) v)
                        @ [CHR 0x27]) vs)
              @ ''))''],
         col_autoincrement = False\<rparr>]"
    by (simp add: enum_col_columns quotedValues_def replace_quotes_concat)
  ultimately show ?thesis
    using status_build replace_quotes_count by blast
qed

lemma addColumn_constraint:
  assumes "columns b \<noteq> []"
  shows "addColumn (modifier [c] False) b = with_constraint b c"
  using addColumn_modifier[OF assms, of "[c]" False] by (simp add: with_constraint_def)

lemma digit_char_code: "d < 10 \<Longrightarrow> (of_char (digit_char d) :: nat) = 48 + d"
  by (simp add: digit_char_def)

lemma digit_value_digit_char: "d < 10 \<Longrightarrow> digit_value (digit_char d) = d"
  by (simp add: digit_value_def digit_char_code)

lemma is_digit_digit_char: "d < 10 \<Longrightarrow> is_digit (digit_char d)"
  by (simp add: is_digit_def digit_char_code)

lemma digit_char_not_quote: "d < 10 \<Longrightarrow> digit_char d \<noteq> CHR 0x27"
proof
  assume d: "d < 10" and eq: "digit_char d = CHR 0x27"
  from eq have "(of_char (digit_char d) :: nat) = of_char (CHR 0x27)" by simp
  with d show False by (simp add: digit_char_code)
qed

lemma digit_char_not_minus: "d < 10 \<Longrightarrow> digit_char d \<noteq> CHR ''-''"
proof
  assume d: "d < 10" and eq: "digit_char d = CHR ''-''"
  from eq have "(of_char (digit_char d) :: nat) = of_char (CHR ''-'')" by simp
  with d show False by (simp add: digit_char_code)
qed

lemma read_nat_snoc: "read_nat (s @ [c]) = 10 * read_nat s + digit_value c"
  by (simp add: read_nat_def)

lemma show_nat_digits:
  "show_nat n \<noteq> [] \<and> list_all is_digit (show_nat n) \<and> CHR 0x27 \<notin> set (show_nat n)
   \<and> hd (show_nat n) \<noteq> CHR ''-'' \<and> read_nat (show_nat n) = n"
proof (induction n rule: show_nat.induct)
  case (1 n)
  show ?case
  proof (cases "n < 10")
    case True
    then have "show_nat n = [digit_char n]" by (subst show_nat.simps) simp
    with True show ?thesis
      using digit_char_not_quote[of n] digit_char_not_minus[of n]
      by (auto simp: is_digit_digit_char digit_value_digit_char read_nat_def)
  next
    case False
    then have eq: "show_nat n = show_nat (n div 10) @ [digit_char (n mod 10)]"
      by (subst show_nat.simps) simp
    have m: "n mod 10 < 10" by simp
    from False 1 have ih: "show_nat (n div 10) \<noteq> [] \<and> list_all is_digit (show_nat (n div 10))
        \<and> CHR 0x27 \<notin> set (show_nat (n div 10))
        \<and> hd (show_nat (n div 10)) \<noteq> CHR ''-'' \<and> read_nat (show_nat (n div 10)) = n div 10"
      by simp
    show ?thesis
      unfolding eq read_nat_snoc
      using ih is_digit_digit_char[OF m] digit_char_not_quote[OF m] digit_value_digit_char[OF m]
      by auto
  qed
qed

lemma read_int_show_int: "read_int (show_int i) = i"
proof (cases "i < 0")
  case True
  then show ?thesis
    using show_nat_digits[of "nat (- i)"] by (simp add: read_int_def show_int_def)
next
  case False
  from show_nat_digits[of "nat i"] obtain c cs
    where split: "show_nat (nat i) = c # cs" and c: "c \<noteq> CHR ''-''"
    by (cases "show_nat (nat i)") auto
  from show_nat_digits[of "nat i"] have "read_nat (c # cs) = nat i"
    unfolding split by simp
  with False c split show ?thesis
    by (simp add: read_int_def show_int_def)
qed

lemma show_int_no_quote: "CHR 0x27 \<notin> set (show_int i)"
  using show_nat_digits by (simp add: show_int_def)

text \<open>
  C10. On a builder with a column, \<open>defaultTo\<close> of a string extends the constraints of the
  most recent column by \<open>DEFAULT\<close> and the string between two single quotes, unchanged:
  its own single quotes are not doubled. A number is rendered by its conversion to a
  string, without quotes: a whole number by the decimal numeral that reads back as the
  number and holds no quote, any other number by the text the language prints for it. A
  boolean is rendered as \<open>true\<close> or \<open>false\<close>, without quotes.
\<close>

theorem defaultTo_renders_verbatim:
  assumes "columns b \<noteq> []"
  shows "defaultTo (JStr v) b = Inr (with_constraint b (''DEFAULT '' @ [CHR 0x27] @ v @ [CHR 0x27]))
         \<and> defaultTo (JNum (Whole w)) b = Inr (with_constraint b (''DEFAULT '' @ show_int (sint w)))
         \<and> read_int (show_int (sint w)) = sint w
         \<and> CHR 0x27 \<notin> set (show_int (sint w))
         \<and> defaultTo (JNum (Printed s)) b = Inr (with_constraint b (''DEFAULT '' @ s))
         \<and> defaultTo (JBool t) b
             = Inr (with_constraint b (''DEFAULT '' @ (if t then ''true'' else ''false'')))"
  using assms
  by (simp add: defaultTo_def defaultValue_def addColumn_constraint show_int_no_quote
        read_int_show_int)

theorem defaultTo_renders_verbatim_witness:
  "columns (text_col ''name'' new_table_builder) \<noteq> []
   \<and> map_sum id build (defaultTo (JStr ''O'Brien'') (text_col ''name'' new_table_builder))
       = Inr ''(name TEXT DEFAULT 'O'Brien')''
   \<and> build (enum_col ''name'' [''O'Brien''] new_table_builder)
       = ''(name TEXT CHECK (name IN ('O'' @ [CHR 0x27, CHR 0x27] @ ''Brien')))''
   \<and> map_sum id build (defaultTo (JNum (Whole 42)) (text_col ''name'' new_table_builder))
       = Inr ''(name TEXT DEFAULT 42)''
   \<and> map_sum id build (defaultTo (JNum (Whole (- 15))) (text_col ''name'' new_table_builder))
       = Inr ''(name TEXT DEFAULT -15)''
   \<and> map_sum id build (defaultTo (JNum (Printed ''1e+21'')) (text_col ''name'' new_table_builder))
       = Inr ''(name TEXT DEFAULT 1e+21)''
   \<and> map_sum id build (defaultTo (JBool True) (text_col ''name'' new_table_builder))
       = Inr ''(name TEXT DEFAULT true)''"
proof -
  let ?b = "text_col ''name'' new_table_builder"
  have h: "columns ?b \<noteq> []"
    by (simp add: text_col_def plain_column_def addColumn_def)
  have r1: "build (with_constraint ?b (''DEFAULT '' @ [CHR 0x27] @ ''O'Brien'' @ [CHR 0x27]))
              = ''(name TEXT DEFAULT 'O'Brien')''"
    by code_simp
  have r2: "build (with_constraint ?b (''DEFAULT '' @ show_int (sint (42 :: 54 word))))
              = ''(name TEXT DEFAULT 42)''"
    by code_simp
  have r3: "build (with_constraint ?b (''DEFAULT '' @ show_int (sint (- 15 :: 54 word))))
              = ''(name TEXT DEFAULT -15)''"
    by code_simp
  have r4: "build (with_constraint ?b (''DEFAULT '' @ ''1e+21'')) = ''(name TEXT DEFAULT 1e+21)''"
    by code_simp
  have r5: "build (with_constraint ?b (''DEFAULT '' @ (if True then ''true'' else ''false'')))
              = ''(name TEXT DEFAULT true)''"
    by code_simp
  have e: "build (enum_col ''name'' [''O'Brien''] new_table_builder)
       = ''(name TEXT CHECK (name IN ('O'' @ [CHR 0x27, CHR 0x27] @ ''Brien')))''"
    by code_simp
  note first = defaultTo_renders_verbatim[OF h, of "''O'Brien''" 42 "''1e+21''" True]
  note second = defaultTo_renders_verbatim[OF h, of "''O'Brien''" "- 15" "''1e+21''" True]
  have a1: "map_sum id build (defaultTo (JStr ''O'Brien'') ?b) = Inr ''(name TEXT DEFAULT 'O'Brien')''"
    using first r1 by (simp only: map_sum.simps)
  have a2: "map_sum id build (defaultTo (JNum (Whole 42)) ?b) = Inr ''(name TEXT DEFAULT 42)''"
    using first r2 by (simp only: map_sum.simps)
  have a3: "map_sum id build (defaultTo (JNum (Whole (- 15))) ?b) = Inr ''(name TEXT DEFAULT -15)''"
    using second r3 by (simp only: map_sum.simps)
  have a4: "map_sum id build (defaultTo (JNum (Printed ''1e+21'')) ?b) = Inr ''(name TEXT DEFAULT 1e+21)''"
    using first r4 by (simp only: map_sum.simps)
  have a5: "map_sum id build (defaultTo (JBool True) ?b) = Inr ''(name TEXT DEFAULT true)''"
    using first r5 by (simp only: map_sum.simps)
  from h e a1 a2 a3 a4 a5 show ?thesis by blast
qed

end
